theory Spec2Isabelle
  imports Complex_Main
begin

section \<open>Shared Python values\<close>

text \<open>
  Exceptions are values. \<open>KeyError\<close> (a missing column), \<open>ValueError\<close> and
  \<open>OverflowError\<close> (\<open>int\<close> of a string, of NaN, of an infinite float) are the ones that
  the code of insights.py can raise by itself; \<open>OtherError\<close> stands for whatever the
  external collaborators (PIL's \<open>Image.open\<close>, the transformers pipeline) raise.
\<close>

datatype exn = KeyError string | ValueError string | OverflowError string | OtherError string

section \<open>image\_classifier.py\<close>

text \<open>
  The object state of \<open>ImageClassification\<close>. The zero-shot pipeline is an external
  model: a function from an image and the candidate labels to a list of (label, score)
  results, or an exception. Scores are floats that the code only stores and returns,
  never computes with; they are embedded as \<open>real\<close>.
\<close>

record 'i ImageClassification =
  classifier :: "'i \<Rightarrow> string list \<Rightarrow> exn + (string \<times> real) list"
  labels :: "string list"
  last_confidence :: real

text \<open>\<open>__init__\<close>: loading the pipeline may raise, and then no object exists.\<close>

definition ImageClassification_init ::
  "(exn + ('i \<Rightarrow> string list \<Rightarrow> exn + (string \<times> real) list)) \<Rightarrow> exn + 'i ImageClassification" where
  "ImageClassification_init pipeline =
     (case pipeline of
        Inl e \<Rightarrow> Inl e
      | Inr m \<Rightarrow> Inr \<lparr>classifier = m, labels = [''cow'', ''buffalo''], last_confidence = 0\<rparr>)"

text \<open>
  \<open>image_classification\<close>: returns the label and the object after the call. An exception
  of \<open>Image.open\<close> or of the model propagates; both happen before any assignment, so the
  object is then as it was.
\<close>

definition image_classification ::
  "('p \<Rightarrow> exn + 'i) \<Rightarrow> 'i ImageClassification \<Rightarrow> 'p \<Rightarrow> exn + (string \<times> 'i ImageClassification)" where
  "image_classification open_image self image_path =
     (case open_image image_path of
        Inl e \<Rightarrow> Inl e
      | Inr img \<Rightarrow>
          (case classifier self img (labels self) of
             Inl e \<Rightarrow> Inl e
           | Inr results \<Rightarrow>
               (case results of
                  (l, s) # _ \<Rightarrow> Inr (l, self\<lparr>last_confidence := s\<rparr>)
                | [] \<Rightarrow> Inr (''Unknown'', self))))"

section \<open>Python strings and numbers used by insights.py\<close>

text \<open>
  A Python \<open>str\<close> is embedded as a \<open>string\<close> holding its UTF-8 bytes, so the rupee sign
  U+20B9 of the currency fields is three bytes, and an ASCII string is one without a
  byte above 127.
\<close>

definition rupee :: string where
  "rupee = [CHR 0xE2, CHR 0x82, CHR 0xB9]"

definition is_ascii :: "string \<Rightarrow> bool" where
  "is_ascii s = list_all (\<lambda>c. \<not> digit7 c) s"

text \<open>
  What the interpreter does and this theory does not define is a parameter of the
  model: the floats (their type \<open>'f\<close> and the three operations that the code applies to
  a float cell: \<open>int(x)\<close>, \<open>x * 12\<close>, \<open>str(x)\<close>), and the Unicode tables behind
  \<open>int(s)\<close>, \<open>s.lower()\<close> and \<open>s.capitalize()\<close> for a string that is not ASCII (or, for
  \<open>int(s)\<close>, that is longer than 640 characters, the least bound that the interpreter's
  limit on the digits of an integer literal can be set to). On the other strings the
  three functions are defined below. Every theorem holds whatever these parameters are.
\<close>

record 'f interp =
  float_int :: "'f \<Rightarrow> exn + int"
  float_mul :: "'f \<Rightarrow> nat \<Rightarrow> 'f"
  float_str :: "'f \<Rightarrow> string"
  unicode_int :: "string \<Rightarrow> exn + int"
  unicode_lower :: "string \<Rightarrow> string"
  unicode_capitalize :: "string \<Rightarrow> string"

definition lower_char :: "char \<Rightarrow> char" where
  "lower_char c =
     (case map_of (zip ''ABCDEFGHIJKLMNOPQRSTUVWXYZ'' ''abcdefghijklmnopqrstuvwxyz'') c of
        Some d \<Rightarrow> d | None \<Rightarrow> c)"

definition upper_char :: "char \<Rightarrow> char" where
  "upper_char c =
     (case map_of (zip ''abcdefghijklmnopqrstuvwxyz'' ''ABCDEFGHIJKLMNOPQRSTUVWXYZ'') c of
        Some d \<Rightarrow> d | None \<Rightarrow> c)"

definition py_lower :: "('f, 'z) interp_scheme \<Rightarrow> string \<Rightarrow> string" where
  "py_lower py s = (if is_ascii s then map lower_char s else unicode_lower py s)"

definition py_capitalize :: "('f, 'z) interp_scheme \<Rightarrow> string \<Rightarrow> string" where
  "py_capitalize py s =
     (if is_ascii s then (case s of [] \<Rightarrow> [] | c # cs \<Rightarrow> upper_char c # map lower_char cs)
      else unicode_capitalize py s)"

text \<open>Decimal digits of a natural number, as \<open>str\<close> prints them.\<close>

definition digit_char :: "nat \<Rightarrow> char" where
  "digit_char d = ''0123456789'' ! (d mod 10)"

fun str_nat :: "nat \<Rightarrow> string" where
  "str_nat n = (if n < 10 then [digit_char n] else str_nat (n div 10) @ [digit_char (n mod 10)])"

declare str_nat.simps [simp del]

definition str_int :: "int \<Rightarrow> string" where
  "str_int n = (if n < 0 then ''-'' else []) @ str_nat (nat \<bar>n\<bar>)"

text \<open>
  The format specification \<open>:,\<close> of an f-string: the sign, then the digits in groups of
  three counted from the right, with a comma between groups. \<open>commas_rev\<close> works on the
  reversed digits.
\<close>

fun commas_rev :: "string \<Rightarrow> string" where
  "commas_rev (a # b # c # d # xs) = a # b # c # CHR '','' # commas_rev (d # xs)"
| "commas_rev xs = xs"

definition fmt_comma :: "int \<Rightarrow> string" where
  "fmt_comma n = (if n < 0 then ''-'' else []) @ rev (commas_rev (rev (str_nat (nat \<bar>n\<bar>))))"

text \<open>
  \<open>int(s)\<close> on an ASCII string: surrounding white space is dropped, one sign is allowed,
  and the rest is decimal digits, where single underscores may stand between digits.
  Anything else is a ValueError (\<open>None\<close> in \<open>ascii_int_of_str\<close>).
\<close>

definition is_digit :: "char \<Rightarrow> bool" where
  "is_digit c = (c \<in> set ''0123456789'')"

definition digit_val :: "char \<Rightarrow> nat" where
  "digit_val c = (case map_of (zip ''0123456789'' [0, 1, 2, 3, 4, 5, 6, 7, 8, 9]) c of
                    Some d \<Rightarrow> d | None \<Rightarrow> 0)"

definition digits_val :: "string \<Rightarrow> nat" where
  "digits_val s = foldl (\<lambda>acc c. 10 * acc + digit_val c) 0 s"

definition is_space :: "char \<Rightarrow> bool" where
  "is_space c = (c \<in> set [CHR '' '', CHR 0x09, CHR 0x0A, CHR 0x0B, CHR 0x0C, CHR 0x0D,
                           CHR 0x1C, CHR 0x1D, CHR 0x1E, CHR 0x1F])"

definition py_strip :: "string \<Rightarrow> string" where
  "py_strip s = rev (dropWhile is_space (rev (dropWhile is_space s)))"

fun int_literal_body :: "string \<Rightarrow> bool" where
  "int_literal_body [] = False"
| "int_literal_body [c] = is_digit c"
| "int_literal_body (c # u # cs) =
     (is_digit c \<and> (if u = CHR ''_'' then int_literal_body cs else int_literal_body (u # cs)))"

definition ascii_int_of_str :: "string \<Rightarrow> int option" where
  "ascii_int_of_str s =
     (let t = py_strip s;
          neg = (take 1 t = ''-'');
          body = (if take 1 t = ''-'' \<or> take 1 t = ''+'' then drop 1 t else t)
      in if int_literal_body body
         then Some ((if neg then - 1 else 1) * int (digits_val (filter (\<lambda>c. c \<noteq> CHR ''_'') body)))
         else None)"

definition py_int_of_str :: "('f, 'z) interp_scheme \<Rightarrow> string \<Rightarrow> exn + int" where
  "py_int_of_str py s =
     (if is_ascii s \<and> length s \<le> 640
      then (case ascii_int_of_str s of
              Some n \<Rightarrow> Inr n
            | None \<Rightarrow> Inl (ValueError ''invalid literal for int()''))
      else unicode_int py s)"

text \<open>
  An integer cell is a \<open>numpy.int64\<close>: its product with 12 is again a 64-bit integer and
  wraps around at \<open>2 ^ 63\<close>.
\<close>

definition wrap64 :: "int \<Rightarrow> int" where
  "wrap64 x = (x + 2 ^ 63) mod 2 ^ 64 - 2 ^ 63"

section \<open>The reference tables: pandas data frames\<close>

text \<open>
  A cell of a data frame read by \<open>read_csv\<close>: a 64-bit integer (of a column of integral
  numbers without a gap), a string, a missing value (NaN), or another float (of a column
  of numbers that has a fraction or a gap).

  A data frame is its column names and its rows; a row shorter than the header is
  filled with NaN, as \<open>read_csv\<close> does.
\<close>

datatype 'f cell = CInt int | CStr string | CNaN | CFloat 'f

record 'f dataframe =
  columns :: "string list"
  rows :: "'f cell list list"

text \<open>A row taken out of a frame (a pandas Series): the column names and the cells.\<close>

type_synonym 'f series = "string list \<times> 'f cell list"

definition cell_at :: "string list \<Rightarrow> 'f cell list \<Rightarrow> string \<Rightarrow> 'f cell" where
  "cell_at cols r c = (case map_of (zip cols r) c of Some v \<Rightarrow> v | None \<Rightarrow> CNaN)"

text \<open>\<open>df[c]\<close>: the column as a list, KeyError when there is no such column.\<close>

definition df_column :: "'f dataframe \<Rightarrow> string \<Rightarrow> exn + 'f cell list" where
  "df_column df c =
     (if c \<in> set (columns df) then Inr (map (\<lambda>r. cell_at (columns df) r c) (rows df))
      else Inl (KeyError c))"

text \<open>\<open>df[df[c] == s]\<close>: the rows whose cell in column \<open>c\<close> is the string \<open>s\<close>.\<close>

definition df_select_eq :: "'f dataframe \<Rightarrow> string \<Rightarrow> string \<Rightarrow> exn + 'f dataframe" where
  "df_select_eq df c s =
     (if c \<in> set (columns df)
      then Inr (df\<lparr>rows := filter (\<lambda>r. cell_at (columns df) r c = CStr s) (rows df)\<rparr>)
      else Inl (KeyError c))"

definition df_empty :: "'f dataframe \<Rightarrow> bool" where
  "df_empty df = (columns df = [] \<or> rows df = [])"

text \<open>\<open>record[c]\<close> raises KeyError for a missing column; \<open>record.get(c, d)\<close> returns \<open>d\<close>.\<close>

definition series_item :: "'f series \<Rightarrow> string \<Rightarrow> exn + 'f cell" where
  "series_item rec c =
     (if c \<in> set (fst rec) then Inr (cell_at (fst rec) (snd rec) c) else Inl (KeyError c))"

definition series_get :: "'f series \<Rightarrow> string \<Rightarrow> 'f cell \<Rightarrow> 'f cell" where
  "series_get rec c d = (if c \<in> set (fst rec) then cell_at (fst rec) (snd rec) c else d)"

text \<open>\<open>int(x)\<close>, \<open>x * 12\<close> and \<open>str(x)\<close> on a cell.\<close>

fun py_int :: "('f, 'z) interp_scheme \<Rightarrow> 'f cell \<Rightarrow> exn + int" where
  "py_int py (CInt n) = Inr n"
| "py_int py (CStr s) = py_int_of_str py s"
| "py_int py CNaN = Inl (ValueError ''cannot convert float NaN to integer'')"
| "py_int py (CFloat x) = float_int py x"

fun py_mul :: "('f, 'z) interp_scheme \<Rightarrow> 'f cell \<Rightarrow> nat \<Rightarrow> 'f cell" where
  "py_mul py (CInt n) k = CInt (wrap64 (n * int k))"
| "py_mul py (CStr s) k = CStr (concat (replicate k s))"
| "py_mul py CNaN k = CNaN"
| "py_mul py (CFloat x) k = CFloat (float_mul py x k)"

fun py_str :: "('f, 'z) interp_scheme \<Rightarrow> 'f cell \<Rightarrow> string" where
  "py_str py (CInt n) = str_int n"
| "py_str py (CStr s) = s"
| "py_str py CNaN = ''nan''"
| "py_str py (CFloat x) = float_str py x"

text \<open>The sample tables that replace both CSV files when either cannot be read.\<close>

definition sample_cow_breeds :: "'f dataframe" where
  "sample_cow_breeds =
     \<lparr>columns = [''Breed_Type'', ''Cost_Of_Cow_INR'', ''Monthly_Income_INR'', ''Popular_Areas'',
                 ''Milk_Per_Day_Litres''],
      rows = [[CStr ''Holstein-Friesian'', CInt 50000, CInt 8000, CStr ''Punjab, Haryana'', CInt 20],
              [CStr ''Jersey'', CInt 45000, CInt 7500, CStr ''Global'', CInt 15],
              [CStr ''Guernsey'', CInt 40000, CInt 7000, CStr ''UK, US'', CInt 12]]\<rparr>"

definition sample_buff_breeds :: "'f dataframe" where
  "sample_buff_breeds =
     \<lparr>columns = [''Breed_Type'', ''Cost_per_Buffalo_INR'', ''Monthly_Income_per_Buffalo_INR'',
                 ''Popular_Areas'', ''Milk_per_Day_Liters''],
      rows = [[CStr ''Murrah'', CInt 60000, CInt 9000, CStr ''Haryana, Punjab'', CInt 18],
              [CStr ''Nili-Ravi'', CInt 55000, CInt 8500, CStr ''Pakistan, Punjab'', CInt 16],
              [CStr ''Jaffarabadi'', CInt 65000, CInt 9500, CStr ''Gujarat'', CInt 20]]\<rparr>"

text \<open>
  Module start: both files are read inside one \<open>try\<close>; if either read raises, both
  tables are the sample tables.
\<close>

definition load_tables ::
  "(exn + 'f dataframe) \<Rightarrow> (exn + 'f dataframe) \<Rightarrow> 'f dataframe option \<times> 'f dataframe option" where
  "load_tables cow_csv buff_csv =
     (case cow_csv of
        Inl e \<Rightarrow> (Some sample_cow_breeds, Some sample_buff_breeds)
      | Inr c \<Rightarrow>
          (case buff_csv of
             Inl e \<Rightarrow> (Some sample_cow_breeds, Some sample_buff_breeds)
           | Inr b \<Rightarrow> (Some c, Some b)))"

section \<open>insights.py\<close>

text \<open>
  The module globals, fixed at import time: the breed model (\<open>None\<close> when the pipeline
  could not be loaded) and the two tables. \<open>Image.open\<close> is the other external
  collaborator. The breed model receives the candidate labels as the cells of the
  \<open>Breed_Type\<close> column and returns (label, score) results. The environment extends the
  interpreter's parameters.
\<close>

record ('p, 'i, 'f) env = "'f interp" +
  image_open :: "'p \<Rightarrow> exn + 'i"
  breed_classifier :: "('i \<Rightarrow> 'f cell list \<Rightarrow> exn + (string \<times> real) list) option"
  cow_breeds :: "'f dataframe option"
  buff_breeds :: "'f dataframe option"

text \<open>
  The candidate labels of \<open>detect_breed\<close> (the \<open>if\<close>/\<open>elif\<close>/\<open>else\<close> before the
  \<open>try\<close>): the \<open>Breed_Type\<close> column of the species' table when that table is not
  \<open>None\<close>, else one of two hard-coded lists. The column access is outside the \<open>try\<close>,
  so its KeyError is not caught.
\<close>

definition candidate_labels :: "('p, 'i, 'f) env \<Rightarrow> string \<Rightarrow> exn + 'f cell list" where
  "candidate_labels env animal_type =
     (case (if py_lower env animal_type = ''cow'' then cow_breeds env else None) of
        Some df \<Rightarrow> df_column df ''Breed_Type''
      | None \<Rightarrow>
          (case (if py_lower env animal_type = ''buffalo'' then buff_breeds env else None) of
             Some df \<Rightarrow> df_column df ''Breed_Type''
           | None \<Rightarrow>
               Inr (if py_lower env animal_type = ''cow''
                    then [CStr ''Holstein-Friesian'', CStr ''Jersey'', CStr ''Murrah'', CStr ''Nili-Ravi'']
                    else [CStr ''Murrah'', CStr ''Nili-Ravi'', CStr ''Jaffarabadi'', CStr ''Bhadawari''])))"

definition detect_breed :: "('p, 'i, 'f) env \<Rightarrow> 'p \<Rightarrow> string \<Rightarrow> exn + string" where
  "detect_breed env image_path animal_type =
     (case breed_classifier env of
        None \<Rightarrow> Inr (''Default '' @ py_capitalize env animal_type)
      | Some model \<Rightarrow>
          (case candidate_labels env animal_type of
             Inl e \<Rightarrow> Inl e
           | Inr lbls \<Rightarrow>
               if lbls = [] then Inr (''Unknown '' @ py_capitalize env animal_type)
               else
                 (case image_open env image_path of
                    Inl e \<Rightarrow> Inr ''Error detecting breed''
                  | Inr img \<Rightarrow>
                      (case model img lbls of
                         Inl e \<Rightarrow> Inr ''Error detecting breed''
                       | Inr results \<Rightarrow>
                           (case results of
                              (l, s) # _ \<Rightarrow> Inr l
                            | [] \<Rightarrow> Inr (''Uncertain '' @ py_capitalize env animal_type))))))"

text \<open>
  The result dictionary, in the order of the dict literal. Every value is a string.
\<close>

type_synonym insights = "(string \<times> string) list"

definition cow_insights :: "('f, 'z) interp_scheme \<Rightarrow> 'f series \<Rightarrow> exn + insights" where
  "cow_insights py rec =
     (case series_item rec ''Breed_Type'' of Inl e \<Rightarrow> Inl e | Inr bt \<Rightarrow>
      case series_item rec ''Cost_Of_Cow_INR'' of Inl e \<Rightarrow> Inl e | Inr cost \<Rightarrow>
      case py_int py cost of Inl e \<Rightarrow> Inl e | Inr c \<Rightarrow>
      case py_int py (py_mul py (series_get rec ''Monthly_Income_INR'' (CInt 0)) 12) of Inl e \<Rightarrow> Inl e | Inr a \<Rightarrow>
      case py_int py (series_get rec ''Monthly_Income_INR'' (CInt 0)) of Inl e \<Rightarrow> Inl e | Inr m \<Rightarrow>
      Inr [(''breed_type'', py_str py bt),
           (''starting_expenditure'', rupee @ fmt_comma c),
           (''annual_income'', rupee @ fmt_comma a),
           (''farmers_percent'', ''--''),
           (''popular_areas'', py_str py (series_get rec ''Popular_Areas'' (CStr ''N/A''))),
           (''milk_per_day'', py_str py (series_get rec ''Milk_Per_Day_Litres'' (CStr ''N/A'')) @ '' Liters''),
           (''monthly_income'', rupee @ fmt_comma m)])"

definition buffalo_insights :: "('f, 'z) interp_scheme \<Rightarrow> 'f series \<Rightarrow> exn + insights" where
  "buffalo_insights py rec =
     (case series_item rec ''Breed_Type'' of Inl e \<Rightarrow> Inl e | Inr bt \<Rightarrow>
      case py_int py (series_get rec ''Cost_per_Buffalo_INR'' (CInt 0)) of Inl e \<Rightarrow> Inl e | Inr c \<Rightarrow>
      case py_int py (py_mul py (series_get rec ''Monthly_Income_per_Buffalo_INR'' (CInt 0)) 12) of Inl e \<Rightarrow> Inl e | Inr a \<Rightarrow>
      case py_int py (series_get rec ''Monthly_Income_per_Buffalo_INR'' (CInt 0)) of Inl e \<Rightarrow> Inl e | Inr m \<Rightarrow>
      Inr [(''breed_type'', py_str py bt),
           (''starting_expenditure'', rupee @ fmt_comma c),
           (''annual_income'', rupee @ fmt_comma a),
           (''farmers_percent'', ''--''),
           (''popular_areas'', py_str py (series_get rec ''Popular_Areas'' (CStr ''N/A''))),
           (''milk_per_day'', py_str py (series_get rec ''Milk_per_Day_Liters'' (CStr ''N/A'')) @ '' Liters''),
           (''monthly_income'', rupee @ fmt_comma m)])"

definition not_available :: "string \<Rightarrow> insights" where
  "not_available breed_type =
     [(''breed_type'', breed_type),
      (''starting_expenditure'', ''Data not available''),
      (''annual_income'', ''Data not available''),
      (''farmers_percent'', ''--''),
      (''popular_areas'', ''Data not available''),
      (''milk_per_day'', ''Data not available''),
      (''monthly_income'', ''Data not available'')]"

definition error_fetching :: "string \<Rightarrow> insights" where
  "error_fetching breed_type =
     [(''breed_type'', breed_type),
      (''starting_expenditure'', ''Error fetching data''),
      (''annual_income'', ''Error fetching data''),
      (''farmers_percent'', ''--''),
      (''popular_areas'', ''Error fetching data''),
      (''milk_per_day'', ''Error fetching data''),
      (''monthly_income'', ''Error fetching data'')]"

text \<open>
  The body of the \<open>try\<close> of \<open>get_breed_insights\<close>: the table of the species is filtered
  for the breed, and the first matching row is formatted. An empty selection, a table
  that is \<open>None\<close> and any other species fall through to the default record.
\<close>

definition get_breed_insights_try :: "('p, 'i, 'f) env \<Rightarrow> string \<Rightarrow> string \<Rightarrow> exn + insights" where
  "get_breed_insights_try env breed_type animal_type =
     (case (if py_lower env animal_type = ''cow'' then cow_breeds env else None) of
        Some df \<Rightarrow>
          (case df_select_eq df ''Breed_Type'' breed_type of
             Inl e \<Rightarrow> Inl e
           | Inr breed_data \<Rightarrow>
               (case (if df_empty breed_data then [] else rows breed_data) of
                  r # _ \<Rightarrow> cow_insights env (columns breed_data, r)
                | [] \<Rightarrow> Inr (not_available breed_type)))
      | None \<Rightarrow>
          (case (if py_lower env animal_type = ''buffalo'' then buff_breeds env else None) of
             Some df \<Rightarrow>
               (case df_select_eq df ''Breed_Type'' breed_type of
                  Inl e \<Rightarrow> Inl e
                | Inr breed_data \<Rightarrow>
                    (case (if df_empty breed_data then [] else rows breed_data) of
                       r # _ \<Rightarrow> buffalo_insights env (columns breed_data, r)
                     | [] \<Rightarrow> Inr (not_available breed_type)))
           | None \<Rightarrow> Inr (not_available breed_type)))"

text \<open>\<open>get_breed_insights\<close>: the \<open>except Exception\<close> turns every exception of the body
  into the error record.\<close>

definition get_breed_insights :: "('p, 'i, 'f) env \<Rightarrow> string \<Rightarrow> string \<Rightarrow> insights" where
  "get_breed_insights env breed_type animal_type =
     (case get_breed_insights_try env breed_type animal_type of
        Inl e \<Rightarrow> error_fetching breed_type
      | Inr d \<Rightarrow> d)"

text \<open>
  A progress event: the dict yielded by the generator; \<open>payload\<close> is its optional
  \<open>data\<close> key. The check mark of the last message is U+2705 in UTF-8.
\<close>

record event =
  progress :: int
  message :: string
  payload :: "insights option"

text \<open>
  \<open>get_insights_stream\<close>, consumed to its end: the events yielded, in order, and the
  exception that ended the generator, if any. \<open>detect_breed\<close> runs after the second
  yield, so its exception comes after two events.
\<close>

definition get_insights_stream :: "('p, 'i, 'f) env \<Rightarrow> string \<Rightarrow> 'p \<Rightarrow> event list \<times> exn option" where
  "get_insights_stream env animal image_path =
     (let e1 = \<lparr>progress = 5, message = ''Initializing analysis...'', payload = None\<rparr>;
          e2 = \<lparr>progress = 30, message = ''Analyzing image to detect specific breed...'', payload = None\<rparr>
      in case detect_breed env image_path animal of
           Inl e \<Rightarrow> ([e1, e2], Some e)
         | Inr detected_breed \<Rightarrow>
             (let e3 = \<lparr>progress = 50,
                        message = ''Breed detected: '' @ detected_breed @ ''. Fetching business insights...'',
                        payload = None\<rparr>;
                  e4 = \<lparr>progress = 75,
                        message = ''Retrieving detailed business analytics from database...'',
                        payload = None\<rparr>;
                  insights_data = get_breed_insights env detected_breed animal;
                  e5 = \<lparr>progress = 90, message = ''Formatting and validating results...'', payload = None\<rparr>;
                  e6 = \<lparr>progress = 100,
                        message = [CHR 0xE2, CHR 0x9C, CHR 0x85] @ '' Analysis complete!'',
                        payload = Some insights_data\<rparr>
              in ([e1, e2, e3, e4, e5, e6], None)))"

section \<open>Vocabulary of the specification\<close>

text \<open>
  The table that the specification calls the table of the selected species: the one
  that both \<open>detect_breed\<close> and \<open>get_breed_insights\<close> choose by their
  \<open>if\<close>/\<open>elif\<close> on the lower-cased species name.
\<close>

definition selected_table :: "('p, 'i, 'f) env \<Rightarrow> string \<Rightarrow> 'f dataframe option" where
  "selected_table env animal_type =
     (if py_lower env animal_type = ''cow'' then cow_breeds env
      else if py_lower env animal_type = ''buffalo'' then buff_breeds env
      else None)"

definition breed_names :: "'f dataframe \<Rightarrow> 'f cell list" where
  "breed_names df = map (\<lambda>r. cell_at (columns df) r ''Breed_Type'') (rows df)"

text \<open>
  The specification's SpeciesTable is keyed by breed name: a loaded table has the
  \<open>Breed_Type\<close> column. A table that is \<open>None\<close> has nothing to check.
\<close>

definition keyed :: "'f dataframe option \<Rightarrow> bool" where
  "keyed t = (case t of None \<Rightarrow> True | Some df \<Rightarrow> ''Breed_Type'' \<in> set (columns df))"





section \<open>Concrete environments\<close>

text \<open>
  The concrete runs need floats only where a gap in a column of integral numbers turns
  the column into floats. Their floats are the integral ones, written as the integer
  \<open>n\<close> for \<open>n.0\<close>: \<open>int(x)\<close> is \<open>n\<close>, \<open>str(x)\<close> ends in \<open>.0\<close>, and the product with 12 is
  exact (for such floats below \<open>2 ^ 53 / 12\<close> and \<open>10 ^ 16\<close> in magnitude, as all of the
  runs are). All strings of the runs are short ASCII strings, so the Unicode parameters
  are never consulted; they are the identity and a ValueError.
\<close>

definition demo_model :: "string \<Rightarrow> int cell list \<Rightarrow> exn + (string \<times> real) list" where
  "demo_model img lbls = Inr [(''Jersey'', 9 / 10), (''Guernsey'', 1 / 10)]"

definition failing_model :: "string \<Rightarrow> int cell list \<Rightarrow> exn + (string \<times> real) list" where
  "failing_model img lbls = Inl (OtherError ''inference failed'')"

text \<open>
  A run with the sample tables and a model that ranks Jersey first; image paths are
  strings and \<open>Image.open\<close> succeeds.
\<close>

definition demo_env :: "(string, string, int) env" where
  "demo_env =
     \<lparr>float_int = Inr,
      float_mul = (\<lambda>n k. n * int k),
      float_str = (\<lambda>n. str_int n @ ''.0''),
      unicode_int = (\<lambda>s. Inl (ValueError ''invalid literal for int()'')),
      unicode_lower = (\<lambda>s. s),
      unicode_capitalize = (\<lambda>s. s),
      image_open = Inr, breed_classifier = Some demo_model,
      cow_breeds = Some sample_cow_breeds, buff_breeds = Some sample_buff_breeds\<rparr>"

text \<open>A cow file with its header line and no data rows.\<close>

definition header_only_cow_breeds :: "int dataframe" where
  "header_only_cow_breeds = \<lparr>columns = columns (sample_cow_breeds :: int dataframe), rows = []\<rparr>"

text \<open>A cow file one of whose breeds carries the name of a placeholder.\<close>

definition odd_cow_breeds :: "int dataframe" where
  "odd_cow_breeds =
     \<lparr>columns = columns (sample_cow_breeds :: int dataframe),
      rows = [[CStr ''Jersey'', CInt 45000, CInt 7500, CStr ''Global'', CInt 15],
              [CStr ''Error detecting breed'', CInt 50000, CInt 8000, CStr ''Punjab'', CInt 20]]\<rparr>"

text \<open>
  A cow file whose second line has no cost: the cell is NaN, and the gap makes the
  other cost a float.
\<close>

definition gappy_cow_breeds :: "int dataframe" where
  "gappy_cow_breeds =
     \<lparr>columns = columns (sample_cow_breeds :: int dataframe),
      rows = [[CStr ''Jersey'', CFloat 45000, CInt 7500, CStr ''Global'', CInt 15],
              [CStr ''Gir'', CNaN, CInt 6000, CStr ''Gujarat'', CInt 10]]\<rparr>"

text \<open>A cow file whose breed-name column has another header.\<close>

definition unkeyed_cow_breeds :: "int dataframe" where
  "unkeyed_cow_breeds =
     \<lparr>columns = [''Breed'', ''Cost_Of_Cow_INR'', ''Monthly_Income_INR'', ''Popular_Areas'',
                 ''Milk_Per_Day_Litres''],
      rows = [[CStr ''Jersey'', CInt 45000, CInt 7500, CStr ''Global'', CInt 15]]\<rparr>"

text \<open>
  A cow file with a monthly income of 768614336404564651: it is below \<open>2 ^ 63\<close>, and
  twelve times it is \<open>2 ^ 63 + 4\<close>.
\<close>

definition huge_cow_breeds :: "int dataframe" where
  "huge_cow_breeds =
     \<lparr>columns = columns (sample_cow_breeds :: int dataframe),
      rows = [[CStr ''Jersey'', CInt 45000, CInt 768614336404564651, CStr ''Global'', CInt 15]]\<rparr>"

text \<open>The species model of image\_classifier.py on a clear picture of a cow, and on a
  picture for which it returns nothing.\<close>

definition species_model :: "string \<Rightarrow> string list \<Rightarrow> exn + (string \<times> real) list" where
  "species_model img lbls =
     (if img = ''blank'' then Inr [] else Inr [(''cow'', 9 / 10), (''buffalo'', 1 / 10)])"

section \<open>Evaluation of the concrete tables and numbers\<close>

lemma str_nat_small: "n < 10 \<Longrightarrow> str_nat n = [digit_char n]"
  by (simp add: str_nat.simps)

lemma str_nat_big: "\<not> n < 10 \<Longrightarrow> str_nat n = str_nat (n div 10) @ [digit_char (n mod 10)]"
  by (subst str_nat.simps) simp

lemmas eval_fmt = fmt_comma_def str_int_def str_nat_small str_nat_big digit_char_def rupee_def
  wrap64_def

lemmas eval_strings = py_lower_def lower_char_def py_capitalize_def upper_char_def is_ascii_def

lemmas eval_tables = sample_cow_breeds_def sample_buff_breeds_def header_only_cow_breeds_def
  odd_cow_breeds_def gappy_cow_breeds_def unkeyed_cow_breeds_def huge_cow_breeds_def

lemmas eval_frames = df_column_def df_select_eq_def df_empty_def series_item_def series_get_def
  cell_at_def

lemmas eval_insights = get_breed_insights_def get_breed_insights_try_def cow_insights_def
  buffalo_insights_def not_available_def error_fetching_def

section \<open>Currency strings\<close>


















section \<open>The table selected by the species\<close>

lemma candidate_labels_selected:
  "candidate_labels env a =
     (case selected_table env a of
        Some df \<Rightarrow> df_column df ''Breed_Type''
      | None \<Rightarrow>
          Inr (if py_lower env a = ''cow''
               then [CStr ''Holstein-Friesian'', CStr ''Jersey'', CStr ''Murrah'', CStr ''Nili-Ravi'']
               else [CStr ''Murrah'', CStr ''Nili-Ravi'', CStr ''Jaffarabadi'', CStr ''Bhadawari'']))"
  by (simp add: candidate_labels_def selected_table_def split: option.splits)

lemma candidate_labels_keyed:
  "keyed (selected_table env a) \<Longrightarrow> \<exists>lbls. candidate_labels env a = Inr lbls"
  by (auto simp: candidate_labels_selected keyed_def df_column_def split: option.splits)

lemma get_breed_insights_try_selected:
  "get_breed_insights_try env b a =
     (case selected_table env a of
        None \<Rightarrow> Inr (not_available b)
      | Some df \<Rightarrow>
          (case df_select_eq df ''Breed_Type'' b of
             Inl e \<Rightarrow> Inl e
           | Inr breed_data \<Rightarrow>
               (case (if df_empty breed_data then [] else rows breed_data) of
                  r # _ \<Rightarrow> (if py_lower env a = ''cow'' then cow_insights env (columns breed_data, r)
                            else buffalo_insights env (columns breed_data, r))
                | [] \<Rightarrow> Inr (not_available b))))"
  by (simp add: get_breed_insights_try_def selected_table_def
           split: option.splits sum.splits list.splits)

lemma no_match_filter:
  "CStr b \<notin> set (breed_names df) \<Longrightarrow>
     filter (\<lambda>r. cell_at (columns df) r ''Breed_Type'' = CStr b) (rows df) = []"
proof -
  assume n: "CStr b \<notin> set (breed_names df)"
  have "\<forall>r \<in> set (rows df). cell_at (columns df) r ''Breed_Type'' \<noteq> CStr b"
  proof
    fix r assume "r \<in> set (rows df)"
    then have "cell_at (columns df) r ''Breed_Type'' \<in> set (breed_names df)"
      by (simp add: breed_names_def)
    with n show "cell_at (columns df) r ''Breed_Type'' \<noteq> CStr b" by auto
  qed
  then show ?thesis by (simp add: filter_empty_conv)
qed


lemma find_present: "x \<in> set xs \<Longrightarrow> P x \<Longrightarrow> \<exists>r. find P xs = Some r \<and> r \<in> set xs \<and> P r"
  by (induction xs) auto


lemma get_breed_insights_try_absent:
  assumes "case selected_table env a of None \<Rightarrow> True
           | Some df \<Rightarrow> ''Breed_Type'' \<in> set (columns df) \<and> CStr b \<notin> set (breed_names df)"
  shows "get_breed_insights_try env b a = Inr (not_available b)"
  using assms
  by (auto simp: get_breed_insights_try_selected df_select_eq_def no_match_filter
           split: option.splits)







section \<open>Breed detection\<close>

lemma detect_breed_returns:
  assumes "keyed (selected_table env a)"
  shows "\<exists>s. detect_breed env p a = Inr s"
proof -
  obtain lbls where "candidate_labels env a = Inr lbls"
    using candidate_labels_keyed [OF assms] by blast
  then show ?thesis
    by (simp add: detect_breed_def split: option.splits sum.splits list.splits)
qed

lemma detect_breed_model_error:
  assumes "breed_classifier env = Some model"
      and "candidate_labels env animal = Inr lbls" and "lbls \<noteq> []"
      and "image_open env p = Inr img" and "model img lbls = Inl e"
  shows "detect_breed env p animal = Inr ''Error detecting breed''"
  using assms by (simp add: detect_breed_def)

text \<open>
  The degraded paths of \<open>detect_breed\<close>: each returns its placeholder, and no exception
  leaves the function when the selected table has its \<open>Breed_Type\<close> column.
\<close>

lemma detect_breed_degraded_paths:
  "(keyed (selected_table env a) \<longrightarrow> (\<exists>s. detect_breed env p a = Inr s))
   \<and> (breed_classifier env = None \<longrightarrow> detect_breed env p a = Inr (''Default '' @ py_capitalize env a))
   \<and> (breed_classifier env = Some model \<and> candidate_labels env a = Inr []
        \<longrightarrow> detect_breed env p a = Inr (''Unknown '' @ py_capitalize env a))
   \<and> (breed_classifier env = Some model \<and> candidate_labels env a = Inr lbls \<and> lbls \<noteq> []
        \<and> (image_open env p = Inl e \<or> image_open env p = Inr img \<and> model img lbls = Inl e)
        \<longrightarrow> detect_breed env p a = Inr ''Error detecting breed'')
   \<and> (breed_classifier env = Some model \<and> candidate_labels env a = Inr lbls \<and> lbls \<noteq> []
        \<and> image_open env p = Inr img \<and> model img lbls = Inr []
        \<longrightarrow> detect_breed env p a = Inr (''Uncertain '' @ py_capitalize env a))"
  using detect_breed_returns [of env a p]
  by (auto simp: detect_breed_def)

text \<open>
  Claim C6. The claim is that \<open>detect_breed\<close> never raises. The column access
  \<open>cow_breeds["Breed_Type"]\<close> stands before the \<open>try\<close>: for a cow file that was read
  but has no \<open>Breed_Type\<close> column, \<open>detect_breed\<close> raises KeyError, and the generator
  ends with that exception after two events. \<open>get_breed_insights\<close> makes the same
  access inside its \<open>try\<close> and returns the error record.
\<close>

theorem detect_breed_raises_on_unkeyed_table:
  "breed_classifier (demo_env\<lparr>cow_breeds := Some unkeyed_cow_breeds\<rparr>) = Some demo_model
   \<and> detect_breed (demo_env\<lparr>cow_breeds := Some unkeyed_cow_breeds\<rparr>) ''cow.jpg'' ''cow''
       = Inl (KeyError ''Breed_Type'')
   \<and> get_insights_stream (demo_env\<lparr>cow_breeds := Some unkeyed_cow_breeds\<rparr>) ''cow'' ''cow.jpg''
       = ([\<lparr>progress = 5, message = ''Initializing analysis...'', payload = None\<rparr>,
           \<lparr>progress = 30, message = ''Analyzing image to detect specific breed...'', payload = None\<rparr>],
          Some (KeyError ''Breed_Type''))
   \<and> get_breed_insights_try (demo_env\<lparr>cow_breeds := Some unkeyed_cow_breeds\<rparr>) ''Jersey'' ''cow''
       = Inl (KeyError ''Breed_Type'')
   \<and> get_breed_insights (demo_env\<lparr>cow_breeds := Some unkeyed_cow_breeds\<rparr>) ''Jersey'' ''cow''
       = error_fetching ''Jersey''"
  by (simp add: detect_breed_def candidate_labels_def get_insights_stream_def demo_env_def
        get_breed_insights_def get_breed_insights_try_def eval_frames eval_tables eval_strings)

text \<open>
  Claim C2, as amended. With the model loaded, the hard-coded list is the candidate set
  exactly when no table is selected (the table of the species is \<open>None\<close>, or the species
  is neither cow nor buffalo); the model is then called with that list and its first
  label returned. When the table of the species is loaded, has its \<open>Breed_Type\<close> column
  and no rows, the candidate list is empty and \<open>detect_breed\<close> returns
  "Unknown {Species}" whatever the model is: the model is not consulted.
\<close>

theorem detect_breed_fallback_labels:
  assumes "breed_classifier env = Some model"
  shows "(selected_table env a = None \<longrightarrow>
            candidate_labels env a =
              Inr (if py_lower env a = ''cow''
                   then [CStr ''Holstein-Friesian'', CStr ''Jersey'', CStr ''Murrah'', CStr ''Nili-Ravi'']
                   else [CStr ''Murrah'', CStr ''Nili-Ravi'', CStr ''Jaffarabadi'', CStr ''Bhadawari''])
            \<and> (image_open env p = Inr img \<and> candidate_labels env a = Inr lbls
                  \<and> model img lbls = Inr ((l, s) # rest)
                  \<longrightarrow> detect_breed env p a = Inr l))
       \<and> (selected_table env a = Some df \<and> ''Breed_Type'' \<in> set (columns df) \<and> rows df = []
            \<longrightarrow> candidate_labels env a = Inr []
              \<and> detect_breed env p a = Inr (''Unknown '' @ py_capitalize env a))"
  using assms
  by (auto simp: candidate_labels_selected detect_breed_def df_column_def)

text \<open>The amended claim C2 at a cow table that is \<open>None\<close> and at a header-only cow table.\<close>

theorem detect_breed_fallback_labels_witness:
  "breed_classifier (demo_env\<lparr>cow_breeds := None\<rparr>) = Some demo_model
   \<and> selected_table (demo_env\<lparr>cow_breeds := None\<rparr>) ''cow'' = None
   \<and> candidate_labels (demo_env\<lparr>cow_breeds := None\<rparr>) ''cow''
       = Inr [CStr ''Holstein-Friesian'', CStr ''Jersey'', CStr ''Murrah'', CStr ''Nili-Ravi'']
   \<and> detect_breed (demo_env\<lparr>cow_breeds := None\<rparr>) ''cow.jpg'' ''cow'' = Inr ''Jersey''
   \<and> selected_table (demo_env\<lparr>cow_breeds := Some header_only_cow_breeds\<rparr>) ''Cow''
       = Some header_only_cow_breeds
   \<and> ''Breed_Type'' \<in> set (columns header_only_cow_breeds)
   \<and> rows header_only_cow_breeds = []
   \<and> detect_breed (demo_env\<lparr>cow_breeds := Some header_only_cow_breeds\<rparr>) ''cow.jpg'' ''Cow''
       = Inr ''Unknown Cow''"
proof -
  let ?e1 = "demo_env\<lparr>cow_breeds := None\<rparr>"
  let ?e2 = "demo_env\<lparr>cow_breeds := Some header_only_cow_breeds\<rparr>"
  let ?fb = "[CStr ''Holstein-Friesian'', CStr ''Jersey'', CStr ''Murrah'', CStr ''Nili-Ravi'']"
  have m1: "breed_classifier ?e1 = Some demo_model"
    and m2: "breed_classifier ?e2 = Some demo_model"
    by (simp_all add: demo_env_def)
  have t1: "selected_table ?e1 ''cow'' = None"
    and t2: "selected_table ?e2 ''Cow'' = Some header_only_cow_breeds"
    by (simp_all add: selected_table_def demo_env_def eval_strings)
  have h: "''Breed_Type'' \<in> set (columns header_only_cow_breeds)" "rows header_only_cow_breeds = []"
    by (simp_all add: eval_tables)
  have o: "image_open ?e1 ''cow.jpg'' = Inr ''cow.jpg''"
    by (simp add: demo_env_def)
  have r: "demo_model ''cow.jpg'' ?fb = Inr ((''Jersey'', 9 / 10) # [(''Guernsey'', 1 / 10)])"
    by (simp add: demo_model_def)
  have l: "py_lower ?e1 ''cow'' = ''cow''" "py_capitalize ?e2 ''Cow'' = ''Cow''"
    by (simp_all add: eval_strings)
  note u1 = detect_breed_fallback_labels [OF m1, where a = "''cow''" and p = "''cow.jpg''"
      and img = "''cow.jpg''" and lbls = ?fb and l = "''Jersey''" and s = "9 / 10"
      and rest = "[(''Guernsey'', 1 / 10)]"]
  have a: "candidate_labels ?e1 ''cow'' = Inr ?fb"
    using u1 t1 l by simp
  have b: "detect_breed ?e1 ''cow.jpg'' ''cow'' = Inr ''Jersey''"
    using u1 t1 o r a by simp
  note u2 = detect_breed_fallback_labels [OF m2, where a = "''Cow''" and p = "''cow.jpg''"
      and df = header_only_cow_breeds]
  have c: "detect_breed ?e2 ''cow.jpg'' ''Cow'' = Inr ''Unknown Cow''"
    using u2 t2 h l by simp
  show ?thesis using m1 t1 a b t2 h c by simp
qed

text \<open>
  Claim C2 as stated fails: for a loaded cow table without rows the candidate list is
  empty, not the fallback list, and the call returns "Unknown Cow", although the model
  would have answered "Jersey" on the fallback list.
\<close>

theorem detect_breed_empty_table_counterexample:
  "selected_table (demo_env\<lparr>cow_breeds := Some header_only_cow_breeds\<rparr>) ''cow''
     = Some header_only_cow_breeds
   \<and> rows header_only_cow_breeds = []
   \<and> candidate_labels (demo_env\<lparr>cow_breeds := Some header_only_cow_breeds\<rparr>) ''cow'' = Inr []
   \<and> demo_model ''cow.jpg''
        [CStr ''Holstein-Friesian'', CStr ''Jersey'', CStr ''Murrah'', CStr ''Nili-Ravi'']
      = Inr [(''Jersey'', 9 / 10), (''Guernsey'', 1 / 10)]
   \<and> detect_breed (demo_env\<lparr>cow_breeds := Some header_only_cow_breeds\<rparr>) ''cow.jpg'' ''cow''
     = Inr ''Unknown Cow''"
  by (simp add: selected_table_def candidate_labels_def detect_breed_def demo_env_def
        demo_model_def df_column_def eval_strings eval_tables)

section \<open>Insight lookup\<close>




text \<open>
  Claim C5. When the breed name equals the \<open>Breed_Type\<close> cell of no row of the selected
  table (the comparison is that of strings, exact and case-sensitive), or no table is
  selected, \<open>get_breed_insights\<close> returns the record whose every field is
  "Data not available", except \<open>breed_type\<close>, the name given, and \<open>farmers_percent\<close>,
  "--". The table is one whose breed names can be compared: it has the \<open>Breed_Type\<close>
  column.
\<close>

theorem get_breed_insights_absent:
  assumes "case selected_table env a of None \<Rightarrow> True
           | Some df \<Rightarrow> ''Breed_Type'' \<in> set (columns df) \<and> CStr b \<notin> set (breed_names df)"
  shows "get_breed_insights env b a =
           [(''breed_type'', b),
            (''starting_expenditure'', ''Data not available''),
            (''annual_income'', ''Data not available''),
            (''farmers_percent'', ''--''),
            (''popular_areas'', ''Data not available''),
            (''milk_per_day'', ''Data not available''),
            (''monthly_income'', ''Data not available'')]"
  using get_breed_insights_try_absent [OF assms]
  by (simp add: get_breed_insights_def not_available_def)

text \<open>Claim C5 at the sample cow table: "jersey" differs from "Jersey" in case.\<close>

theorem get_breed_insights_absent_witness:
  "selected_table demo_env ''cow'' = Some sample_cow_breeds
   \<and> ''Breed_Type'' \<in> set (columns (sample_cow_breeds :: int dataframe))
   \<and> CStr ''jersey'' \<notin> set (breed_names (sample_cow_breeds :: int dataframe))
   \<and> get_breed_insights demo_env ''jersey'' ''cow'' =
           [(''breed_type'', ''jersey''),
            (''starting_expenditure'', ''Data not available''),
            (''annual_income'', ''Data not available''),
            (''farmers_percent'', ''--''),
            (''popular_areas'', ''Data not available''),
            (''milk_per_day'', ''Data not available''),
            (''monthly_income'', ''Data not available'')]"
proof -
  have t: "selected_table demo_env ''cow'' = Some sample_cow_breeds"
    by (simp add: selected_table_def demo_env_def eval_strings)
  have k: "''Breed_Type'' \<in> set (columns (sample_cow_breeds :: int dataframe))"
    by (simp add: eval_tables)
  have n: "CStr ''jersey'' \<notin> set (breed_names (sample_cow_breeds :: int dataframe))"
    by (simp add: breed_names_def eval_tables eval_frames)
  have h: "case selected_table demo_env ''cow'' of None \<Rightarrow> True
           | Some df \<Rightarrow> ''Breed_Type'' \<in> set (columns df) \<and> CStr ''jersey'' \<notin> set (breed_names df)"
    using t k n by simp
  from get_breed_insights_absent [OF h] t k n show ?thesis by simp
qed

text \<open>
  Claim C7. If the lookup or the formatting raises, \<open>get_breed_insights\<close> does not
  propagate the exception: it returns the record whose every field is
  "Error fetching data", except \<open>breed_type\<close>, the name given, and \<open>farmers_percent\<close>,
  "--".
\<close>

theorem get_breed_insights_error_record:
  assumes "get_breed_insights_try env b a = Inl e"
  shows "get_breed_insights env b a =
           [(''breed_type'', b),
            (''starting_expenditure'', ''Error fetching data''),
            (''annual_income'', ''Error fetching data''),
            (''farmers_percent'', ''--''),
            (''popular_areas'', ''Error fetching data''),
            (''milk_per_day'', ''Error fetching data''),
            (''monthly_income'', ''Error fetching data'')]"
  using assms by (simp add: get_breed_insights_def error_fetching_def)

text \<open>Claim C7 at a row whose cost is missing: \<open>int\<close> of NaN raises ValueError.\<close>

theorem get_breed_insights_error_record_witness:
  "get_breed_insights_try (demo_env\<lparr>cow_breeds := Some gappy_cow_breeds\<rparr>) ''Gir'' ''cow''
     = Inl (ValueError ''cannot convert float NaN to integer'')
   \<and> get_breed_insights (demo_env\<lparr>cow_breeds := Some gappy_cow_breeds\<rparr>) ''Gir'' ''cow'' =
           [(''breed_type'', ''Gir''),
            (''starting_expenditure'', ''Error fetching data''),
            (''annual_income'', ''Error fetching data''),
            (''farmers_percent'', ''--''),
            (''popular_areas'', ''Error fetching data''),
            (''milk_per_day'', ''Error fetching data''),
            (''monthly_income'', ''Error fetching data'')]"
proof -
  have h: "get_breed_insights_try (demo_env\<lparr>cow_breeds := Some gappy_cow_breeds\<rparr>) ''Gir'' ''cow''
             = Inl (ValueError ''cannot convert float NaN to integer'')"
    by (simp add: demo_env_def get_breed_insights_try_def cow_insights_def eval_frames
          eval_tables eval_strings)
  from get_breed_insights_error_record [OF h] h show ?thesis by simp
qed



section \<open>The progress stream\<close>

lemma stream_of_breed:
  assumes "detect_breed env p a = Inr b"
  shows "\<exists>evs. get_insights_stream env a p = (evs, None)
           \<and> map progress evs = [5, 30, 50, 75, 90, 100]
           \<and> map (\<lambda>e. payload e \<noteq> None) evs = [False, False, False, False, False, True]
           \<and> payload (last evs) = Some (get_breed_insights env b a)"
  using assms by (simp add: get_insights_stream_def Let_def)

text \<open>
  Claim C1, as amended. Whenever breed detection returns a name, the generator runs to its
  end without an exception and yields exactly six events. Their progress values are
  5, 30, 50, 75, 90, 100, strictly increasing; the event with 90 ("Formatting and
  validating results...") stands between the lookup and the final event. Exactly one
  event, the last, carries the data, and the data is the result of \<open>get_breed_insights\<close>
  for the detected name.
\<close>

theorem get_insights_stream_six_events:
  assumes "detect_breed env p animal = Inr b"
  shows "\<exists>evs. get_insights_stream env animal p = (evs, None)
           \<and> length evs = 6
           \<and> map progress evs = [5, 30, 50, 75, 90, 100]
           \<and> sorted_wrt (<) (map progress evs)
           \<and> map (\<lambda>e. payload e \<noteq> None) evs = [False, False, False, False, False, True]
           \<and> payload (last evs) = Some (get_breed_insights env b animal)"
proof -
  from stream_of_breed [OF assms] obtain evs where
    e: "get_insights_stream env animal p = (evs, None)"
       "map progress evs = [5, 30, 50, 75, 90, 100]"
       "map (\<lambda>e. payload e \<noteq> None) evs = [False, False, False, False, False, True]"
       "payload (last evs) = Some (get_breed_insights env b animal)"
    by auto
  from e(2) have "length (map progress evs) = 6" by simp
  then have "length evs = 6" by simp
  moreover have "sorted_wrt (<) (map progress evs)" by (simp add: e(2))
  ultimately show ?thesis using e by auto
qed

text \<open>The amended claim C1 at the sample tables, for a buffalo.\<close>

theorem get_insights_stream_six_events_witness:
  "detect_breed demo_env ''b.jpg'' ''buffalo'' = Inr ''Jersey''
   \<and> (\<exists>evs. get_insights_stream demo_env ''buffalo'' ''b.jpg'' = (evs, None)
           \<and> length evs = 6
           \<and> map progress evs = [5, 30, 50, 75, 90, 100]
           \<and> sorted_wrt (<) (map progress evs)
           \<and> map (\<lambda>e. payload e \<noteq> None) evs = [False, False, False, False, False, True]
           \<and> payload (last evs) = Some (get_breed_insights demo_env ''Jersey'' ''buffalo''))"
proof -
  have h: "detect_breed demo_env ''b.jpg'' ''buffalo'' = Inr ''Jersey''"
    by (simp add: detect_breed_def candidate_labels_def demo_env_def demo_model_def
          eval_frames eval_strings eval_tables)
  from get_insights_stream_six_events [OF h] h show ?thesis by simp
qed

text \<open>
  Claim C1 as stated (exactly five events, 5, 30, 50, 75, 100) fails: with the sample
  tables and a working model the stream for a cow has six events.
\<close>

theorem get_insights_stream_five_events_counterexample:
  "map progress (fst (get_insights_stream demo_env ''cow'' ''cow.jpg'')) = [5, 30, 50, 75, 90, 100]
   \<and> map progress (fst (get_insights_stream demo_env ''cow'' ''cow.jpg'')) \<noteq> [5, 30, 50, 75, 100]
   \<and> length (fst (get_insights_stream demo_env ''cow'' ''cow.jpg'')) \<noteq> 5"
  by (simp add: get_insights_stream_def detect_breed_def demo_env_def demo_model_def
        candidate_labels_def eval_strings df_column_def sample_cow_breeds_def
        Let_def)

text \<open>
  Claim C3, as amended. If the call of the breed model raises, the generator still runs
  to its end without an exception, through all its events, and, provided that no row of
  the selected table has the breed name "Error detecting breed", the data of the final
  event has \<open>breed_type\<close> "Error detecting breed", \<open>farmers_percent\<close> "--" and every
  other field "Data not available".
\<close>

theorem stream_after_model_error:
  assumes "breed_classifier env = Some model"
      and "candidate_labels env animal = Inr lbls" and "lbls \<noteq> []"
      and "image_open env p = Inr img" and "model img lbls = Inl e"
      and "case selected_table env animal of None \<Rightarrow> True
           | Some df \<Rightarrow> CStr ''Error detecting breed'' \<notin> set (breed_names df)"
  shows "\<exists>evs. get_insights_stream env animal p = (evs, None)
           \<and> map progress evs = [5, 30, 50, 75, 90, 100]
           \<and> payload (last evs) =
               Some [(''breed_type'', ''Error detecting breed''),
                     (''starting_expenditure'', ''Data not available''),
                     (''annual_income'', ''Data not available''),
                     (''farmers_percent'', ''--''),
                     (''popular_areas'', ''Data not available''),
                     (''milk_per_day'', ''Data not available''),
                     (''monthly_income'', ''Data not available'')]"
proof -
  have d: "detect_breed env p animal = Inr ''Error detecting breed''"
    using assms(1-5) by (rule detect_breed_model_error)
  have "case selected_table env animal of None \<Rightarrow> True
        | Some df \<Rightarrow> ''Breed_Type'' \<in> set (columns df)
                     \<and> CStr ''Error detecting breed'' \<notin> set (breed_names df)"
    using assms(2,6)
    by (auto simp: candidate_labels_selected df_column_def split: option.splits if_splits)
  then have "get_breed_insights env ''Error detecting breed'' animal =
               not_available ''Error detecting breed''"
    using get_breed_insights_try_absent [where env = env and a = animal and b = "''Error detecting breed''"]
    by (simp add: get_breed_insights_def)
  with stream_of_breed [OF d] show ?thesis
    by (auto simp: not_available_def)
qed

text \<open>The amended claim C3 at the sample tables with a model that raises.\<close>

theorem stream_after_model_error_witness:
  "breed_classifier (demo_env\<lparr>breed_classifier := Some failing_model\<rparr>) = Some failing_model
   \<and> candidate_labels (demo_env\<lparr>breed_classifier := Some failing_model\<rparr>) ''cow''
       = Inr [CStr ''Holstein-Friesian'', CStr ''Jersey'', CStr ''Guernsey'']
   \<and> image_open (demo_env\<lparr>breed_classifier := Some failing_model\<rparr>) ''cow.jpg'' = Inr ''cow.jpg''
   \<and> failing_model ''cow.jpg'' [CStr ''Holstein-Friesian'', CStr ''Jersey'', CStr ''Guernsey'']
       = Inl (OtherError ''inference failed'')
   \<and> selected_table (demo_env\<lparr>breed_classifier := Some failing_model\<rparr>) ''cow''
       = Some sample_cow_breeds
   \<and> CStr ''Error detecting breed'' \<notin> set (breed_names (sample_cow_breeds :: int dataframe))
   \<and> (\<exists>evs. get_insights_stream (demo_env\<lparr>breed_classifier := Some failing_model\<rparr>) ''cow'' ''cow.jpg''
              = (evs, None)
           \<and> map progress evs = [5, 30, 50, 75, 90, 100]
           \<and> payload (last evs) =
               Some [(''breed_type'', ''Error detecting breed''),
                     (''starting_expenditure'', ''Data not available''),
                     (''annual_income'', ''Data not available''),
                     (''farmers_percent'', ''--''),
                     (''popular_areas'', ''Data not available''),
                     (''milk_per_day'', ''Data not available''),
                     (''monthly_income'', ''Data not available'')])"
proof -
  let ?env = "demo_env\<lparr>breed_classifier := Some failing_model\<rparr>"
  let ?lbls = "[CStr ''Holstein-Friesian'', CStr ''Jersey'', CStr ''Guernsey'']"
  have m: "breed_classifier ?env = Some failing_model" by simp
  have c: "candidate_labels ?env ''cow'' = Inr ?lbls"
    by (simp add: candidate_labels_def demo_env_def eval_frames eval_tables eval_strings)
  have ne: "?lbls \<noteq> []" by simp
  have o: "image_open ?env ''cow.jpg'' = Inr ''cow.jpg''" by (simp add: demo_env_def)
  have f: "failing_model ''cow.jpg'' ?lbls = Inl (OtherError ''inference failed'')"
    by (simp add: failing_model_def)
  have t: "selected_table ?env ''cow'' = Some sample_cow_breeds"
    by (simp add: selected_table_def demo_env_def eval_strings)
  have n: "CStr ''Error detecting breed'' \<notin> set (breed_names (sample_cow_breeds :: int dataframe))"
    by (simp add: breed_names_def eval_tables eval_frames)
  have h: "case selected_table ?env ''cow'' of None \<Rightarrow> True
           | Some df \<Rightarrow> CStr ''Error detecting breed'' \<notin> set (breed_names df)"
    using t n by simp
  from stream_after_model_error [OF m c ne o f h] m c o f t n show ?thesis by simp
qed

text \<open>
  Claim C3 as stated fails: the lookup is an exact string match, so a table with a row
  named "Error detecting breed" answers the placeholder with that row's figures.
\<close>

theorem stream_after_model_error_counterexample:
  "failing_model ''cow.jpg'' [CStr ''Jersey'', CStr ''Error detecting breed'']
     = Inl (OtherError ''inference failed'')
   \<and> detect_breed (demo_env\<lparr>breed_classifier := Some failing_model, cow_breeds := Some odd_cow_breeds\<rparr>)
        ''cow.jpg'' ''cow'' = Inr ''Error detecting breed''
   \<and> snd (get_insights_stream
            (demo_env\<lparr>breed_classifier := Some failing_model, cow_breeds := Some odd_cow_breeds\<rparr>)
            ''cow'' ''cow.jpg'') = None
   \<and> payload (last (fst (get_insights_stream
            (demo_env\<lparr>breed_classifier := Some failing_model, cow_breeds := Some odd_cow_breeds\<rparr>)
            ''cow'' ''cow.jpg''))) =
        Some [(''breed_type'', ''Error detecting breed''),
              (''starting_expenditure'', rupee @ ''50,000''),
              (''annual_income'', rupee @ ''96,000''),
              (''farmers_percent'', ''--''),
              (''popular_areas'', ''Punjab''),
              (''milk_per_day'', ''20 Liters''),
              (''monthly_income'', rupee @ ''8,000'')]
   \<and> rupee @ ''50,000'' \<noteq> ''Data not available''"
  by (simp add: get_insights_stream_def detect_breed_def candidate_labels_def demo_env_def
        failing_model_def Let_def eval_insights eval_frames eval_tables eval_strings eval_fmt)

section \<open>The species classifier\<close>



text \<open>
  Claim C9. When the model returns an empty result list, \<open>image_classification\<close> returns
  "Unknown" and leaves the object, and so \<open>last_confidence\<close>, exactly as it was: after
  \<open>__init__\<close> that is 0.0, and after an earlier successful call it is the stale score of
  that call. If a call changes \<open>last_confidence\<close>, the model returned a non-empty list
  and the new value is the score of its first result.
\<close>

theorem image_classification_unknown_keeps_confidence:
  "(open_image p = Inr img \<and> classifier self img (labels self) = Inr []
      \<longrightarrow> image_classification open_image self p = Inr (''Unknown'', self))
   \<and> (ImageClassification_init (Inr m) = Inr self \<longrightarrow> last_confidence self = 0)
   \<and> (image_classification open_image self p = Inr (l, self')
      \<longrightarrow> last_confidence self' \<noteq> last_confidence self
      \<longrightarrow> (\<exists>img rest. open_image p = Inr img
            \<and> classifier self img (labels self) = Inr ((l, last_confidence self') # rest)))"
  by (auto simp: image_classification_def ImageClassification_init_def
           split: sum.splits list.splits)

text \<open>
  Claim C9 at an object whose earlier call stored 0.9: the "Unknown" result leaves 0.9
  in place.
\<close>

theorem image_classification_unknown_keeps_confidence_witness:
  "image_classification Inr
     \<lparr>classifier = species_model, labels = [''cow'', ''buffalo''], last_confidence = 9 / 10\<rparr> ''blank''
     = Inr (''Unknown'',
            \<lparr>classifier = species_model, labels = [''cow'', ''buffalo''], last_confidence = 9 / 10\<rparr>)
   \<and> ImageClassification_init (Inr species_model)
       = Inr \<lparr>classifier = species_model, labels = [''cow'', ''buffalo''], last_confidence = 0\<rparr>
   \<and> last_confidence
        \<lparr>classifier = species_model, labels = [''cow'', ''buffalo''], last_confidence = 0\<rparr> = 0
   \<and> image_classification Inr
        \<lparr>classifier = species_model, labels = [''cow'', ''buffalo''], last_confidence = 0\<rparr> ''cow.jpg''
       = Inr (''cow'', \<lparr>classifier = species_model, labels = [''cow'', ''buffalo''],
                        last_confidence = 9 / 10\<rparr>)
   \<and> (\<exists>img rest. (Inr :: string \<Rightarrow> exn + string) ''cow.jpg'' = Inr img
         \<and> species_model img [''cow'', ''buffalo''] = Inr ((''cow'', 9 / 10) # rest))"
proof -
  let ?s0 = "\<lparr>classifier = species_model, labels = [''cow'', ''buffalo''], last_confidence = 0\<rparr>"
  let ?s1 = "\<lparr>classifier = species_model, labels = [''cow'', ''buffalo''], last_confidence = 9 / 10\<rparr>"
  have i: "ImageClassification_init (Inr species_model) = Inr ?s0"
    by (simp add: ImageClassification_init_def)
  have e: "(Inr :: string \<Rightarrow> exn + string) ''blank'' = Inr ''blank''
           \<and> classifier ?s1 ''blank'' (labels ?s1) = Inr []"
    by (simp add: species_model_def)
  have c: "image_classification Inr ?s0 ''cow.jpg'' = Inr (''cow'', ?s1)"
    by (simp add: image_classification_def species_model_def)
  have d: "last_confidence ?s1 \<noteq> last_confidence ?s0" by simp
  note u1 = image_classification_unknown_keeps_confidence
      [where open_image = "Inr :: string \<Rightarrow> exn + string" and p = "''blank''" and img = "''blank''"
         and self = ?s1 and m = species_model and l = "''Unknown''" and self' = ?s1]
  note u0 = image_classification_unknown_keeps_confidence
      [where open_image = "Inr :: string \<Rightarrow> exn + string" and p = "''cow.jpg''" and img = "''cow.jpg''"
         and self = ?s0 and m = species_model and l = "''cow''" and self' = ?s1]
  have a: "image_classification Inr ?s1 ''blank'' = Inr (''Unknown'', ?s1)"
    using u1 e by blast
  have z: "last_confidence ?s0 = 0"
    using u0 i by blast
  have x: "\<exists>img rest. (Inr :: string \<Rightarrow> exn + string) ''cow.jpg'' = Inr img
             \<and> species_model img [''cow'', ''buffalo''] = Inr ((''cow'', 9 / 10) # rest)"
    using u0 c d by simp
  show ?thesis using a i z c x by simp
qed

end
